theory Spec2Isabelle
  imports Main "HOL-Library.Word" "HOL-Library.Mapping" "HOL-Library.AList_Mapping"
begin

unbundle bit_operations_syntax

section \<open>Data model\<close>

text \<open>
  Errors are values. \<open>EOF\<close> and \<open>ErrUnexpectedEOF\<close> are the two sentinels of package
  \<open>io\<close>; \<open>badStringError what val\<close> is the error built by the function of that name
  (part_002, line 24); \<open>Errorf msg\<close> is \<open>fmt.Errorf(msg)\<close>; \<open>External msg\<close> stands for
  any other error value handed back by a collaborator (URL parser, header reader,
  transfer reader).
\<close>

datatype error =
    EOF
  | ErrUnexpectedEOF
  | badStringError string string
  | Errorf string
  | External string

text \<open>
  \<open>url.URL\<close>, with the fields the request reader and its callers look at. The
  \<open>User\<close>, \<open>RawPath\<close> and \<open>Fragment\<close> fields play no role here and are left out.
\<close>

record URL =
  Scheme :: string
  Opaque :: string
  Host :: string
  Path :: string
  RawQuery :: string

text \<open>
  \<open>http.Header\<close> is \<open>map[string][]string\<close>; a nil map reads like the empty one.
  \<open>h[k]\<close> is \<open>Mapping.lookup h k\<close>, the assignment \<open>h[k] = v\<close> is \<open>Mapping.update k v h\<close>,
  and \<open>len(h) == 0\<close> is \<open>Mapping.is_empty h\<close>.
\<close>

type_synonym Header = "(string, string list) mapping"

text \<open>
  The \<open>Body\<close> field is an \<open>io.ReadCloser\<close>: \<open>None\<close> is the nil interface,
  \<open>Some NoBody\<close> is the sentinel \<open>http.NoBody\<close>, \<open>Some (Reader s)\<close> any other reader
  (named by the bytes it will deliver). \<open>GetBody\<close> is a nilable function value; it is
  modelled by the result it would give when called.
\<close>

datatype body = NoBody | Reader string

record Request =
  Method :: string
  URL :: URL
  Proto :: string
  ProtoMajor :: int
  ProtoMinor :: int
  Header :: Header
  Body :: "body option"
  GetBody :: "(error + body) option"
  ContentLength :: "64 word"
  Close :: bool
  Host :: string
  RequestURI :: string

text \<open>The zero values \<open>url.URL{}\<close> and \<open>new(http.Request)\<close>.\<close>

definition zeroURL :: URL where
  "zeroURL = \<lparr>Scheme = '''', Opaque = '''', URL.Host = '''', Path = '''', RawQuery = ''''\<rparr>"

definition newRequest :: Request where
  "newRequest = \<lparr>Method = '''', URL = zeroURL, Proto = '''', ProtoMajor = 0, ProtoMinor = 0,
     Header = Mapping.empty, Body = None, GetBody = None, ContentLength = 0, Close = False,
     Host = '''', RequestURI = ''''\<rparr>"

section \<open>Replayability (part_002, lines 30-36 and 206-224)\<close>

definition valueOrDefault :: "string \<Rightarrow> string \<Rightarrow> string" where
  "valueOrDefault v def = (if v \<noteq> '''' then v else def)"

definition isReplayableRequest :: "Request \<Rightarrow> bool" where
  "isReplayableRequest req =
     (if Body req = None \<or> Body req = Some NoBody \<or> GetBody req \<noteq> None then
        (if valueOrDefault (Method req) ''GET'' \<in> set [''GET'', ''HEAD'', ''OPTIONS'', ''TRACE'']
         then True
         else
           (let exists = (Mapping.lookup (Header req) ''Idempotency-Key'' \<noteq> None);
                exists = (if \<not> exists
                          then Mapping.lookup (Header req) ''X-Idempotency-Key'' \<noteq> None
                          else exists)
            in if exists then True else False))
      else False)"

section \<open>Header synthesis (tls.go, lines 31-37)\<close>

text \<open>
  The Go function mutates the map it is given; the model returns the map after the
  call. \<open>hp[0]\<close> is read only behind the test \<open>len(hp) > 0\<close>.
\<close>

definition fixPragmaCacheControl :: "Header \<Rightarrow> Header" where
  "fixPragmaCacheControl header =
     (case Mapping.lookup header ''Pragma'' of
        Some hp \<Rightarrow>
          (if length hp > 0 \<and> hp ! 0 = ''no-cache'' then
             (if Mapping.lookup header ''Cache-Control'' = None
              then Mapping.update ''Cache-Control'' [''no-cache''] header
              else header)
           else header)
      | None \<Rightarrow> header)"

section \<open>Protocol sets (http.go, lines 25-73)\<close>

record Protocols =
  bits :: "8 word"

definition zeroProtocols :: Protocols where
  "zeroProtocols = \<lparr>bits = 0\<rparr>"

text \<open>\<open>1 << iota\<close> for \<open>iota\<close> = 0, 1, 2.\<close>

definition protoHTTP1 :: "8 word" where
  "protoHTTP1 = push_bit 0 1"

definition protoHTTP2 :: "8 word" where
  "protoHTTP2 = push_bit 1 1"

definition protoUnencryptedHTTP2 :: "8 word" where
  "protoUnencryptedHTTP2 = push_bit 2 1"

definition setBit :: "Protocols \<Rightarrow> 8 word \<Rightarrow> bool \<Rightarrow> Protocols" where
  "setBit p b ok =
     (if ok then p\<lparr>bits := bits p OR b\<rparr> else p\<lparr>bits := bits p AND NOT b\<rparr>)"

definition HTTP1 :: "Protocols \<Rightarrow> bool" where
  "HTTP1 p = (bits p AND protoHTTP1 \<noteq> 0)"

definition SetHTTP1 :: "Protocols \<Rightarrow> bool \<Rightarrow> Protocols" where
  "SetHTTP1 p ok = setBit p protoHTTP1 ok"

definition HTTP2 :: "Protocols \<Rightarrow> bool" where
  "HTTP2 p = (bits p AND protoHTTP2 \<noteq> 0)"

definition SetHTTP2 :: "Protocols \<Rightarrow> bool \<Rightarrow> Protocols" where
  "SetHTTP2 p ok = setBit p protoHTTP2 ok"

definition UnencryptedHTTP2 :: "Protocols \<Rightarrow> bool" where
  "UnencryptedHTTP2 p = (bits p AND protoUnencryptedHTTP2 \<noteq> 0)"

definition SetUnencryptedHTTP2 :: "Protocols \<Rightarrow> bool \<Rightarrow> Protocols" where
  "SetUnencryptedHTTP2 p ok = setBit p protoUnencryptedHTTP2 ok"

text \<open>\<open>strings.Join\<close>.\<close>

fun Join :: "string list \<Rightarrow> string \<Rightarrow> string" where
  "Join [] sep = ''''"
| "Join [x] sep = x"
| "Join (x # y # ys) sep = x @ sep @ Join (y # ys) sep"

definition String :: "Protocols \<Rightarrow> string" where
  "String p =
     (let s = [];
          s = (if HTTP1 p then s @ [''HTTP1''] else s);
          s = (if HTTP2 p then s @ [''HTTP2''] else s);
          s = (if UnencryptedHTTP2 p then s @ [''UnencryptedHTTP2''] else s)
      in ''{'' @ Join s '','' @ ''}'')"

text \<open>
  The values a program can hold: the unexported field \<open>bits\<close> starts at zero and is
  written by \<open>setBit\<close> only, which the three exported setters call.
\<close>

inductive built :: "Protocols \<Rightarrow> bool" where
  built_zero: "built zeroProtocols"
| built_HTTP1: "built p \<Longrightarrow> built (SetHTTP1 p ok)"
| built_HTTP2: "built p \<Longrightarrow> built (SetHTTP2 p ok)"
| built_UnencryptedHTTP2: "built p \<Longrightarrow> built (SetUnencryptedHTTP2 p ok)"

text \<open>
  The round trip of the specification, in its words: read the members listed in a
  rendering (the names between the braces, separated by commas), and enable exactly
  those on the empty set.
\<close>

fun fields :: "string \<Rightarrow> string \<Rightarrow> string list" where
  "fields acc [] = [acc]"
| "fields acc (c # cs) = (if c = CHR '','' then acc # fields [] cs else fields (acc @ [c]) cs)"

definition listed :: "string \<Rightarrow> string list" where
  "listed s = filter (\<lambda>w. w \<noteq> []) (fields [] (butlast (tl s)))"

definition enable :: "string \<Rightarrow> Protocols \<Rightarrow> Protocols" where
  "enable name p =
     (if name = ''HTTP1'' then SetHTTP1 p True
      else if name = ''HTTP2'' then SetHTTP2 p True
      else if name = ''UnencryptedHTTP2'' then SetUnencryptedHTTP2 p True
      else p)"

definition reenable :: "string \<Rightarrow> Protocols" where
  "reenable s = fold enable (listed s) zeroProtocols"

section \<open>Header values and tokens\<close>

text \<open>
  \<open>Header.Get\<close> of the standard library: the first value stored under the key, or the
  empty string. The library canonicalises the key first; every key passed below
  (\<open>Connection\<close>, \<open>Upgrade\<close>) is already in canonical form.
\<close>

definition Get :: "Header \<Rightarrow> string \<Rightarrow> string" where
  "Get h key =
     (case Mapping.lookup h key of
        None \<Rightarrow> ''''
      | Some v \<Rightarrow> (if length v = 0 then '''' else v ! 0))"

text \<open>
  Modelled from the spec: \<open>getFromHeader\<close> is declared in a file of the repository that
  is not among the sources. The request reader uses it to take the \<open>Host\<close> value of the
  header block; it is read here as the first value under the key, empty when absent.
\<close>

definition getFromHeader :: "Header \<Rightarrow> string \<Rightarrow> string" where
  "getFromHeader h key =
     (case Mapping.lookup h key of
        None \<Rightarrow> ''''
      | Some v \<Rightarrow> (if length v = 0 then '''' else v ! 0))"

text \<open>
  Modelled from the spec: \<open>lower\<close> belongs to the repository's \<open>internal/ascii\<close>
  package, which is not among the sources. It maps an upper-case ASCII letter to its
  lower-case form and leaves every other byte as it is.
\<close>

definition lower :: "char \<Rightarrow> char" where
  "lower b =
     (if (of_char CHR ''A'' :: nat) \<le> of_char b \<and> (of_char b :: nat) \<le> of_char CHR ''Z''
      then char_of ((of_char b :: nat) + (of_char CHR ''a'' - of_char CHR ''A''))
      else b)"

text \<open>
  Modelled from the spec: \<open>ascii.EqualFold\<close> belongs to the same package. It compares
  two strings byte by byte, ignoring the case of ASCII letters; strings of different
  lengths are different.
\<close>

definition EqualFold :: "string \<Rightarrow> string \<Rightarrow> bool" where
  "EqualFold s t =
     (if length s \<noteq> length t then False
      else list_all (\<lambda>i. lower (s ! i) = lower (t ! i)) [0..<length s])"

text \<open>
  Modelled from the spec: \<open>isTokenBoundary\<close> is declared, with \<open>hasToken\<close>, in a file of
  the repository that is not among the sources. A token ends at a space, a comma or a
  tab.
\<close>

definition isTokenBoundary :: "char \<Rightarrow> bool" where
  "isTokenBoundary b = (b = CHR '' '' \<or> b = CHR '','' \<or> b = CHR 0x09)"

text \<open>
  Modelled from the spec: one round of the search of \<open>hasToken\<close>, at start position
  \<open>sp\<close>. The token stands there when the position before and the position after are
  ends of the value or token boundaries, and the bytes between match without regard to
  ASCII case.
\<close>

definition tokenAt :: "string \<Rightarrow> string \<Rightarrow> nat \<Rightarrow> bool" where
  "tokenAt v token sp =
     ((sp = 0 \<or> isTokenBoundary (v ! (sp - 1)))
      \<and> (sp + length token = length v \<or> isTokenBoundary (v ! (sp + length token)))
      \<and> EqualFold (take (length token) (drop sp v)) token)"

text \<open>
  Modelled from the spec: \<open>hasToken\<close> is declared in a file of the repository that is
  not among the sources. The specification describes a case-insensitive token match,
  not a substring match: the token, which is given in lower case, stands at some
  position of the value.
\<close>

definition hasToken :: "string \<Rightarrow> string \<Rightarrow> bool" where
  "hasToken v token =
     (if length token > length v \<or> token = '''' then False
      else if v = token then True
      else list_ex (tokenAt v token) [0..<length v - length token + 1])"

section \<open>Upgrade requests (part_002, lines 202-204 and 236-239)\<close>

definition requestRequiresHTTP1 :: "Request \<Rightarrow> bool" where
  "requestRequiresHTTP1 req =
     (hasToken (Get (Header req) ''Connection'') ''upgrade''
      \<and> EqualFold (Get (Header req) ''Upgrade'') ''websocket'')"

definition isH2UpgradeRequest :: "Request \<Rightarrow> bool" where
  "isH2UpgradeRequest req =
     (Method req = ''PRI'' \<and> Mapping.is_empty (Header req) \<and> Path (URL req) = ''*''
      \<and> Proto req = ''HTTP/2.0'')"

section \<open>Start line (part_002, lines 54-69 and 168-175; http.go, lines 99-103)\<close>

text \<open>
  \<open>strings.Cut\<close>: the text before and after the first occurrence of the separator, and
  whether it occurs; without an occurrence, the whole text and the empty string.
  \<open>strings.HasPrefix\<close>.
\<close>

fun Cut :: "string \<Rightarrow> string \<Rightarrow> string \<times> string \<times> bool" where
  "Cut [] sep = ([], [], sep = [])"
| "Cut (c # cs) sep =
     (if take (length sep) (c # cs) = sep then ([], drop (length sep) (c # cs), True)
      else (case Cut cs sep of (before, after, found) \<Rightarrow> (c # before, after, found)))"

definition HasPrefix :: "string \<Rightarrow> string \<Rightarrow> bool" where
  "HasPrefix s pre = (length s \<ge> length pre \<and> take (length pre) s = pre)"

definition parseRequestLine :: "string \<Rightarrow> string \<times> string \<times> string \<times> bool" where
  "parseRequestLine line =
     (case Cut line '' '' of (method, rest, ok1) \<Rightarrow>
      (case Cut rest '' '' of (requestURI, proto, ok2) \<Rightarrow>
         if \<not> ok1 \<or> \<not> ok2 then ('''', '''', '''', False)
         else (method, requestURI, proto, True)))"

text \<open>
  Modelled from the spec: the character table of \<open>httpguts.ValidHeaderFieldName\<close> is
  outside the sources. The specification gives the token grammar: letters, digits and
  the characters \<^verbatim>\<open>!#$%&'*+-.^_`|~\<close>.
\<close>

definition isTokenTable :: "char \<Rightarrow> bool" where
  "isTokenTable c =
     (let n = (of_char c :: nat) in
        (of_char CHR ''a'' \<le> n \<and> n \<le> of_char CHR ''z'')
        \<or> (of_char CHR ''A'' \<le> n \<and> n \<le> of_char CHR ''Z'')
        \<or> (of_char CHR ''0'' \<le> n \<and> n \<le> of_char CHR ''9'')
        \<or> c \<in> set [CHR ''!'', CHR ''#'', CHR ''$'', CHR ''%'', CHR ''&'', CHR 0x27, CHR ''*'',
              CHR ''+'', CHR ''-'', CHR ''.'', CHR ''^'', CHR ''_'', CHR 0x60, CHR ''|'', CHR ''~''])"

text \<open>
  Modelled from the spec: \<open>httpguts.ValidHeaderFieldName\<close> is outside the sources. A
  token is a non-empty string of token characters.
\<close>

definition ValidHeaderFieldName :: "string \<Rightarrow> bool" where
  "ValidHeaderFieldName v = (length v \<noteq> 0 \<and> list_all isTokenTable v)"

definition isToken :: "string \<Rightarrow> bool" where
  "isToken v = ValidHeaderFieldName v"

definition validMethod :: "string \<Rightarrow> bool" where
  "validMethod method = isToken method"

section \<open>Reading a request (part_002, lines 71-166)\<close>

text \<open>
  The collaborators of \<open>readRequest\<close> that are not part of the sources are parameters:
  the two reads of the line and header reader (each given by its result on the stream
  at hand), the version and URL parsers of the standard library, and the repository's
  \<open>shouldClose\<close> and \<open>readTransfer\<close>. \<open>ParseHTTPVersion\<close> returns \<open>None\<close> where the Go
  function returns \<open>ok = false\<close>. \<open>readTransfer\<close> writes to the request it is given; it
  returns the request after the call.
\<close>

record env =
  ReadLine :: "error + string"
  ReadMIMEHeader :: "error + Header"
  ParseHTTPVersion :: "string \<Rightarrow> (int \<times> int) option"
  ParseRequestURI :: "string \<Rightarrow> error + URL"
  shouldClose :: "int \<Rightarrow> int \<Rightarrow> Header \<Rightarrow> bool \<Rightarrow> bool"
  readTransfer :: "Request \<Rightarrow> error + Request"

text \<open>The deferred function of lines 82-86, applied to every return after line 86.\<close>

definition deferred :: "error + 'a \<Rightarrow> error + 'a" where
  "deferred r =
     (case r of
        Inl err \<Rightarrow> Inl (if err = EOF then ErrUnexpectedEOF else err)
      | Inr x \<Rightarrow> Inr x)"

text \<open>Lines 75 and 88-99: the start line, into a fresh request.\<close>

definition requestLine :: "env \<Rightarrow> string \<Rightarrow> error + Request" where
  "requestLine env s =
     (case parseRequestLine s of (method, requestURI, proto, ok) \<Rightarrow>
        if \<not> ok then Inl (badStringError ''malformed HTTP request'' s)
        else if \<not> validMethod method then Inl (badStringError ''invalid method'' method)
        else (case ParseHTTPVersion env proto of
                None \<Rightarrow> Inl (badStringError ''malformed HTTP version'' proto)
              | Some (major, minor) \<Rightarrow>
                  Inr (newRequest\<lparr>Method := method, RequestURI := requestURI, Proto := proto,
                         ProtoMajor := major, ProtoMinor := minor\<rparr>)))"

text \<open>Lines 96 and 110-122: the target.\<close>

definition requestURL :: "env \<Rightarrow> Request \<Rightarrow> error + Request" where
  "requestURL env req =
     (let rawurl = RequestURI req;
          justAuthority = (Method req = ''CONNECT'' \<and> \<not> HasPrefix rawurl ''/'');
          rawurl = (if justAuthority then ''http://'' @ rawurl else rawurl)
      in case ParseRequestURI env rawurl of
           Inl err \<Rightarrow> Inl err
         | Inr u \<Rightarrow> Inr (req\<lparr>URL := (if justAuthority then u\<lparr>Scheme := ''''\<rparr> else u)\<rparr>))"

text \<open>Lines 125-148: the header block.\<close>

definition requestHeader :: "env \<Rightarrow> Request \<Rightarrow> error + Request" where
  "requestHeader env req =
     (case ReadMIMEHeader env of
        Inl err \<Rightarrow> Inl err
      | Inr mimeHeader \<Rightarrow>
          if (case Mapping.lookup mimeHeader ''Host'' of None \<Rightarrow> 0 | Some vs \<Rightarrow> length vs) > 1
          then Inl (Errorf ''too many Host headers'')
          else
            (let host = URL.Host (URL req);
                 host = (if host = '''' then getFromHeader mimeHeader ''Host'' else host);
                 header = fixPragmaCacheControl mimeHeader
             in Inr (req\<lparr>Header := header, Host := host,
                       Close := shouldClose env (ProtoMajor req) (ProtoMinor req) header False\<rparr>)))"

text \<open>Lines 150-165: the transfer, and the adjustment for the HTTP/2 preface.\<close>

definition requestTransfer :: "env \<Rightarrow> Request \<Rightarrow> error + Request" where
  "requestTransfer env req =
     (case readTransfer env req of
        Inl err \<Rightarrow> Inl err
      | Inr req' \<Rightarrow>
          Inr (if isH2UpgradeRequest req' then req'\<lparr>ContentLength := - 1, Close := True\<rparr>
               else req'))"

text \<open>
  Each step returns at its first error, as the \<open>if err != nil { return nil, err }\<close> of
  the source does; \<open>andThen\<close> is that sequencing.
\<close>

definition andThen :: "error + 'a \<Rightarrow> ('a \<Rightarrow> error + 'b) \<Rightarrow> error + 'b" where
  "andThen r f = (case r of Inl err \<Rightarrow> Inl err | Inr x \<Rightarrow> f x)"

definition headerAndTransfer :: "env \<Rightarrow> Request \<Rightarrow> error + Request" where
  "headerAndTransfer env req = andThen (requestHeader env req) (requestTransfer env)"

text \<open>
  The error of the first read (lines 79-81) is returned before the deferred function
  is registered.
\<close>

definition readRequest :: "env \<Rightarrow> error + Request" where
  "readRequest env =
     (case ReadLine env of
        Inl err \<Rightarrow> Inl err
      | Inr s \<Rightarrow>
          deferred
            (andThen (andThen (requestLine env s) (requestURL env)) (headerAndTransfer env)))"

section \<open>A set of collaborators for running the reader\<close>

text \<open>
  To run \<open>readRequest\<close> on example streams the collaborators must be given. The ones
  below answer as the library functions do on the inputs used in the examples: the
  versions \<open>HTTP/1.0\<close>, \<open>HTTP/1.1\<close> and \<open>HTTP/2.0\<close>; the targets \<open>*\<close>, a path starting
  with a slash, \<open>http://\<close> followed by an authority and, from the first slash on, a
  path (without query, fragment, escape or user information), and a text with neither
  a scheme nor a leading slash, which the library refuses as a request URI. The stream
  holds the given start line, an empty header block and no body.
\<close>

definition exampleParseRequestURI :: "string \<Rightarrow> error + URL" where
  "exampleParseRequestURI rawurl =
     (if rawurl = ''*'' then Inr (zeroURL\<lparr>Path := ''*''\<rparr>)
      else if HasPrefix rawurl ''/'' then Inr (zeroURL\<lparr>Path := rawurl\<rparr>)
      else if HasPrefix rawurl ''http://''
        then
          (let rest = drop 7 rawurl
           in Inr (zeroURL\<lparr>Scheme := ''http'',
                     URL.Host := takeWhile (\<lambda>c. c \<noteq> CHR ''/'') rest,
                     Path := dropWhile (\<lambda>c. c \<noteq> CHR ''/'') rest\<rparr>))
      else Inl (External ''invalid URI for request''))"

definition exampleParseHTTPVersion :: "string \<Rightarrow> (int \<times> int) option" where
  "exampleParseHTTPVersion vers =
     (if vers = ''HTTP/1.1'' then Some (1, 1)
      else if vers = ''HTTP/1.0'' then Some (1, 0)
      else if vers = ''HTTP/2.0'' then Some (2, 0)
      else None)"

definition exampleEnv :: "string \<Rightarrow> env" where
  "exampleEnv line =
     \<lparr>ReadLine = Inr line,
      ReadMIMEHeader = Inr Mapping.empty,
      ParseHTTPVersion = exampleParseHTTPVersion,
      ParseRequestURI = exampleParseRequestURI,
      shouldClose = (\<lambda>major minor header removeCloseHeader. major < 1),
      readTransfer = (\<lambda>req. Inr (req\<lparr>Body := Some NoBody\<rparr>))\<rparr>"

section \<open>Replayability: theorems\<close>

text \<open>
  C10. A request whose \<open>Method\<close> is the empty string is judged exactly as the same
  request with method \<open>GET\<close>; in particular, with no body (\<open>Body\<close> nil or
  \<open>http.NoBody\<close>) it is replayable, whatever its headers, so also when neither
  idempotency header is present.
\<close>

theorem isReplayableRequest_empty_method:
  "Method req = [] \<Longrightarrow>
     isReplayableRequest req = isReplayableRequest (req\<lparr>Method := ''GET''\<rparr>)
     \<and> (Body req = None \<or> Body req = Some NoBody \<longrightarrow> isReplayableRequest req)"
  by (auto simp: isReplayableRequest_def valueOrDefault_def)

theorem isReplayableRequest_empty_method_witness:
  "Method newRequest = [] \<and> Body newRequest = None
   \<and> Mapping.lookup (Header newRequest) ''Idempotency-Key'' = None
   \<and> Mapping.lookup (Header newRequest) ''X-Idempotency-Key'' = None
   \<and> isReplayableRequest newRequest"
proof -
  have m: "Method newRequest = []" by (simp add: newRequest_def)
  have b: "Body newRequest = None" by (simp add: newRequest_def)
  have h: "Header newRequest = Mapping.empty" by (simp add: newRequest_def)
  have r: "isReplayableRequest newRequest"
    using isReplayableRequest_empty_method [OF m] b by blast
  show ?thesis using m b h r by simp
qed

text \<open>
  C1 (as amended). \<open>isReplayableRequest\<close> returns true if and only if the request has
  no body (\<open>Body\<close> nil or \<open>http.NoBody\<close>) or a re-creatable one (\<open>GetBody\<close> non-nil),
  and either the method is one of GET, HEAD, OPTIONS, TRACE or is the empty string
  (which the function reads as GET), or an \<open>Idempotency-Key\<close> or \<open>X-Idempotency-Key\<close>
  entry is present in the header map.
\<close>

theorem isReplayableRequest_iff:
  "isReplayableRequest req \<longleftrightarrow>
     (Body req = None \<or> Body req = Some NoBody \<or> GetBody req \<noteq> None) \<and>
     (Method req \<in> {'''', ''GET'', ''HEAD'', ''OPTIONS'', ''TRACE''}
        \<or> ''Idempotency-Key'' \<in> Mapping.keys (Header req)
        \<or> ''X-Idempotency-Key'' \<in> Mapping.keys (Header req))"
  by (auto simp: isReplayableRequest_def valueOrDefault_def Let_def keys_is_none_rep
      Option.is_none_def)

text \<open>
  The three instances the specification lists: a GET with no body and no idempotency
  header is replayable; a POST with a body, no \<open>GetBody\<close> and no idempotency header is
  not; a POST with \<open>Idempotency-Key\<close> and a re-creatable body is.
\<close>

theorem isReplayableRequest_iff_witness:
  "isReplayableRequest (newRequest\<lparr>Method := ''GET''\<rparr>)
   \<and> \<not> isReplayableRequest (newRequest\<lparr>Method := ''POST'', Body := Some (Reader ''a=1'')\<rparr>)
   \<and> isReplayableRequest
        (newRequest\<lparr>Method := ''POST'', Body := Some (Reader ''a=1''),
           GetBody := Some (Inr (Reader ''a=1'')),
           Header := Mapping.update ''Idempotency-Key'' [''k1''] Mapping.empty\<rparr>)"
  using isReplayableRequest_iff [of "newRequest\<lparr>Method := ''GET''\<rparr>"]
    isReplayableRequest_iff [of "newRequest\<lparr>Method := ''POST'', Body := Some (Reader ''a=1'')\<rparr>"]
    isReplayableRequest_iff
      [of "newRequest\<lparr>Method := ''POST'', Body := Some (Reader ''a=1''),
             GetBody := Some (Inr (Reader ''a=1'')),
             Header := Mapping.update ''Idempotency-Key'' [''k1''] Mapping.empty\<rparr>"]
  by (simp add: newRequest_def)

text \<open>
  The claim as first stated, with the method required to be one of the four literal
  tokens, fails at the zero request: its method is empty, it has no body and no header,
  and it is judged replayable.
\<close>

theorem isReplayableRequest_literal_methods_counterexample:
  "isReplayableRequest newRequest
   \<and> \<not> ((Body newRequest = None \<or> Body newRequest = Some NoBody \<or> GetBody newRequest \<noteq> None)
        \<and> (Method newRequest \<in> {''GET'', ''HEAD'', ''OPTIONS'', ''TRACE''}
             \<or> ''Idempotency-Key'' \<in> Mapping.keys (Header newRequest)
             \<or> ''X-Idempotency-Key'' \<in> Mapping.keys (Header newRequest)))"
  by (simp add: isReplayableRequest_def valueOrDefault_def newRequest_def)

text \<open>
  C2 (as amended). For a request carrying an \<open>Idempotency-Key\<close> or \<open>X-Idempotency-Key\<close>
  entry, \<open>isReplayableRequest\<close> returns true exactly when the body is nil, is
  \<open>http.NoBody\<close>, or can be re-created (\<open>GetBody\<close> non-nil). The header does not
  replace that condition: with a body and no \<open>GetBody\<close> the result is false.
\<close>

theorem isReplayableRequest_idempotency_key:
  "''Idempotency-Key'' \<in> Mapping.keys (Header req)
     \<or> ''X-Idempotency-Key'' \<in> Mapping.keys (Header req) \<Longrightarrow>
     isReplayableRequest req \<longleftrightarrow>
       (Body req = None \<or> Body req = Some NoBody \<or> GetBody req \<noteq> None)"
  by (auto simp: isReplayableRequest_def valueOrDefault_def Let_def keys_is_none_rep
      Option.is_none_def)

theorem isReplayableRequest_idempotency_key_witness:
  "''X-Idempotency-Key'' \<in> Mapping.keys (Mapping.update ''X-Idempotency-Key'' [''k1''] Mapping.empty)
   \<and> isReplayableRequest
        (newRequest\<lparr>Method := ''PUT'', Body := Some (Reader ''payload''),
           GetBody := Some (Inr (Reader ''payload'')),
           Header := Mapping.update ''X-Idempotency-Key'' [''k1''] Mapping.empty\<rparr>)"
proof -
  let ?r = "newRequest\<lparr>Method := ''PUT'', Body := Some (Reader ''payload''),
              GetBody := Some (Inr (Reader ''payload'')),
              Header := Mapping.update ''X-Idempotency-Key'' [''k1''] Mapping.empty\<rparr>"
  have k: "''Idempotency-Key'' \<in> Mapping.keys (Header ?r)
             \<or> ''X-Idempotency-Key'' \<in> Mapping.keys (Header ?r)"
    by simp
  have g: "GetBody ?r \<noteq> None" by simp
  have "isReplayableRequest ?r"
    using isReplayableRequest_idempotency_key [OF k] g by blast
  then show ?thesis by simp
qed

text \<open>
  The claim as first stated fails for a POST with \<open>Idempotency-Key\<close>, a body and no
  \<open>GetBody\<close>: the outer test on the body is false and the header is never consulted.
\<close>

theorem isReplayableRequest_key_with_body_counterexample:
  "''Idempotency-Key'' \<in> Mapping.keys (Header
      (newRequest\<lparr>Method := ''POST'', Body := Some (Reader ''a=1''),
         Header := Mapping.update ''Idempotency-Key'' [''k1''] Mapping.empty\<rparr>))
   \<and> Body (newRequest\<lparr>Method := ''POST'', Body := Some (Reader ''a=1''),
         Header := Mapping.update ''Idempotency-Key'' [''k1''] Mapping.empty\<rparr>)
       = Some (Reader ''a=1'')
   \<and> GetBody (newRequest\<lparr>Method := ''POST'', Body := Some (Reader ''a=1''),
         Header := Mapping.update ''Idempotency-Key'' [''k1''] Mapping.empty\<rparr>) = None
   \<and> \<not> isReplayableRequest
        (newRequest\<lparr>Method := ''POST'', Body := Some (Reader ''a=1''),
           Header := Mapping.update ''Idempotency-Key'' [''k1''] Mapping.empty\<rparr>)"
  by (simp add: isReplayableRequest_def newRequest_def)

section \<open>Header synthesis: theorems\<close>

text \<open>
  C9 (as amended). \<open>fixPragmaCacheControl\<close> stores \<open>Cache-Control: no-cache\<close> (a
  single value) exactly when the map has a \<open>Pragma\<close> entry whose first value is
  \<open>no-cache\<close> and has no \<open>Cache-Control\<close> entry; in every other case, also when
  \<open>no-cache\<close> is a later value of the \<open>Pragma\<close> entry, the map is returned as it was.
  A \<open>Cache-Control\<close> entry that is present keeps its value, and no entry under another
  key is changed.
\<close>

theorem fixPragmaCacheControl_effect:
  "((\<exists>hp. Mapping.lookup h ''Pragma'' = Some (''no-cache'' # hp))
       \<and> Mapping.lookup h ''Cache-Control'' = None \<longrightarrow>
      fixPragmaCacheControl h = Mapping.update ''Cache-Control'' [''no-cache''] h)
   \<and> (\<not> ((\<exists>hp. Mapping.lookup h ''Pragma'' = Some (''no-cache'' # hp))
          \<and> Mapping.lookup h ''Cache-Control'' = None) \<longrightarrow>
      fixPragmaCacheControl h = h)
   \<and> (\<forall>v. Mapping.lookup h ''Cache-Control'' = Some v \<longrightarrow>
          Mapping.lookup (fixPragmaCacheControl h) ''Cache-Control'' = Some v)
   \<and> (\<forall>k. k \<noteq> ''Cache-Control'' \<longrightarrow>
          Mapping.lookup (fixPragmaCacheControl h) k = Mapping.lookup h k)"
  by (auto simp: fixPragmaCacheControl_def neq_Nil_conv lookup_update' split: option.splits)

text \<open>
  With \<open>Pragma: no-cache\<close> alone the entry is added and \<open>Pragma\<close> is kept; with a
  \<open>Cache-Control\<close> already there, or another \<open>Pragma\<close> value, nothing changes.
\<close>

theorem fixPragmaCacheControl_effect_witness:
  "Mapping.lookup (fixPragmaCacheControl (Mapping.update ''Pragma'' [''no-cache''] Mapping.empty))
      ''Cache-Control'' = Some [''no-cache'']
   \<and> Mapping.lookup (fixPragmaCacheControl (Mapping.update ''Pragma'' [''no-cache''] Mapping.empty))
      ''Pragma'' = Some [''no-cache'']
   \<and> fixPragmaCacheControl
        (Mapping.update ''Cache-Control'' [''max-age=60'']
          (Mapping.update ''Pragma'' [''no-cache''] Mapping.empty))
      = Mapping.update ''Cache-Control'' [''max-age=60'']
          (Mapping.update ''Pragma'' [''no-cache''] Mapping.empty)
   \<and> fixPragmaCacheControl (Mapping.update ''Pragma'' [''public''] Mapping.empty)
      = Mapping.update ''Pragma'' [''public''] Mapping.empty"
  using fixPragmaCacheControl_effect [of "Mapping.update ''Pragma'' [''no-cache''] Mapping.empty"]
    fixPragmaCacheControl_effect
      [of "Mapping.update ''Cache-Control'' [''max-age=60'']
            (Mapping.update ''Pragma'' [''no-cache''] Mapping.empty)"]
    fixPragmaCacheControl_effect [of "Mapping.update ''Pragma'' [''public''] Mapping.empty"]
  by (simp add: lookup_update')

text \<open>
  The claim as first stated, for a \<open>Pragma\<close> field with value \<open>no-cache\<close> anywhere,
  fails when \<open>no-cache\<close> is the second value of the entry: only \<open>hp[0]\<close> is compared,
  and no \<open>Cache-Control\<close> entry is added.
\<close>

theorem fixPragmaCacheControl_later_value_counterexample:
  "Mapping.lookup (Mapping.update ''Pragma'' [''x-vendor'', ''no-cache''] Mapping.empty) ''Pragma''
     = Some [''x-vendor'', ''no-cache'']
   \<and> ''no-cache'' \<in> set [''x-vendor'', ''no-cache'']
   \<and> Mapping.lookup (Mapping.update ''Pragma'' [''x-vendor'', ''no-cache''] Mapping.empty)
        ''Cache-Control'' = None
   \<and> fixPragmaCacheControl (Mapping.update ''Pragma'' [''x-vendor'', ''no-cache''] Mapping.empty)
       = Mapping.update ''Pragma'' [''x-vendor'', ''no-cache''] Mapping.empty
   \<and> Mapping.lookup
        (fixPragmaCacheControl (Mapping.update ''Pragma'' [''x-vendor'', ''no-cache''] Mapping.empty))
        ''Cache-Control'' = None"
  by (simp add: fixPragmaCacheControl_def lookup_update')

section \<open>Protocol sets: theorems\<close>

lemma proto_values: "protoHTTP1 = 1" "protoHTTP2 = 2" "protoUnencryptedHTTP2 = 4"
  by (simp_all add: protoHTTP1_def protoHTTP2_def protoUnencryptedHTTP2_def)

lemma built_bits: "built p \<Longrightarrow> bits p \<in> {0, 1, 2, 3, 4, 5, 6, 7}"
proof (induction rule: built.induct)
  case built_zero
  then show ?case by (simp add: zeroProtocols_def)
next
  case (built_HTTP1 p ok)
  then show ?case by (cases ok) (auto simp: SetHTTP1_def setBit_def proto_values)
next
  case (built_HTTP2 p ok)
  then show ?case by (cases ok) (auto simp: SetHTTP2_def setBit_def proto_values)
next
  case (built_UnencryptedHTTP2 p ok)
  then show ?case by (cases ok) (auto simp: SetUnencryptedHTTP2_def setBit_def proto_values)
qed

text \<open>
  The values that can be built are exactly those with no bit outside the three flags:
  each of them is reached by one call of each setter.
\<close>

lemma flags_at:
  "w \<in> {0, 1, 2, 3, 4, 5, 6, 7} \<Longrightarrow>
     \<lparr>bits = w\<rparr> =
       SetUnencryptedHTTP2 (SetHTTP2 (SetHTTP1 zeroProtocols (HTTP1 \<lparr>bits = w\<rparr>))
         (HTTP2 \<lparr>bits = w\<rparr>)) (UnencryptedHTTP2 \<lparr>bits = w\<rparr>)"
  by (auto simp: SetHTTP1_def SetHTTP2_def SetUnencryptedHTTP2_def setBit_def HTTP1_def HTTP2_def
      UnencryptedHTTP2_def proto_values zeroProtocols_def)

lemma built_iff: "built p \<longleftrightarrow> bits p \<in> {0, 1, 2, 3, 4, 5, 6, 7}"
proof
  assume "built p"
  then show "bits p \<in> {0, 1, 2, 3, 4, 5, 6, 7}" by (rule built_bits)
next
  assume w: "bits p \<in> {0, 1, 2, 3, 4, 5, 6, 7}"
  have "built (SetUnencryptedHTTP2 (SetHTTP2 (SetHTTP1 zeroProtocols (HTTP1 \<lparr>bits = bits p\<rparr>))
         (HTTP2 \<lparr>bits = bits p\<rparr>)) (UnencryptedHTTP2 \<lparr>bits = bits p\<rparr>))"
    by (intro built.intros)
  with flags_at [OF w] have "built \<lparr>bits = bits p\<rparr>" by simp
  moreover have "p = \<lparr>bits = bits p\<rparr>" by simp
  ultimately show "built p" by metis
qed

lemma listed_at:
  "w \<in> {0, 1, 2, 3, 4, 5, 6, 7} \<Longrightarrow>
     listed (String \<lparr>bits = w\<rparr>) =
       map snd (filter fst [(HTTP1 \<lparr>bits = w\<rparr>, ''HTTP1''), (HTTP2 \<lparr>bits = w\<rparr>, ''HTTP2''),
          (UnencryptedHTTP2 \<lparr>bits = w\<rparr>, ''UnencryptedHTTP2'')])"
  by (auto simp: listed_def String_def HTTP1_def HTTP2_def UnencryptedHTTP2_def proto_values)

lemma reenable_at:
  "w \<in> {0, 1, 2, 3, 4, 5, 6, 7} \<Longrightarrow> reenable (String \<lparr>bits = w\<rparr>) = \<lparr>bits = w\<rparr>"
  by (auto simp: reenable_def listed_def String_def HTTP1_def HTTP2_def UnencryptedHTTP2_def
      enable_def SetHTTP1_def SetHTTP2_def SetUnencryptedHTTP2_def setBit_def proto_values
      zeroProtocols_def)

lemma String_members:
  "String p = ''{'' @ Join (map snd (filter fst [(HTTP1 p, ''HTTP1''), (HTTP2 p, ''HTTP2''),
        (UnencryptedHTTP2 p, ''UnencryptedHTTP2'')])) '','' @ ''}''"
  by (simp add: String_def)

text \<open>
  C6. \<open>String\<close> renders an opening brace, the names of the enabled members in the
  order HTTP1, HTTP2, UnencryptedHTTP2, separated by commas, and a closing brace. For
  every value of the set, that is every value whose field holds one of the eight
  combinations 0 to 7 of the three flags, the members listed in the rendering are
  exactly the enabled ones, and enabling those on the zero value gives the value back.
  The eight renderings are written out.
\<close>

theorem Protocols_String_roundtrip:
  "String p = ''{'' @ Join (map snd (filter fst [(HTTP1 p, ''HTTP1''), (HTTP2 p, ''HTTP2''),
        (UnencryptedHTTP2 p, ''UnencryptedHTTP2'')])) '','' @ ''}''
   \<and> (bits p \<in> {0, 1, 2, 3, 4, 5, 6, 7} \<longrightarrow>
        listed (String p) = map snd (filter fst [(HTTP1 p, ''HTTP1''), (HTTP2 p, ''HTTP2''),
          (UnencryptedHTTP2 p, ''UnencryptedHTTP2'')])
        \<and> reenable (String p) = p)
   \<and> String \<lparr>bits = 0\<rparr> = ''{}''
   \<and> String \<lparr>bits = 1\<rparr> = ''{HTTP1}''
   \<and> String \<lparr>bits = 2\<rparr> = ''{HTTP2}''
   \<and> String \<lparr>bits = 3\<rparr> = ''{HTTP1,HTTP2}''
   \<and> String \<lparr>bits = 4\<rparr> = ''{UnencryptedHTTP2}''
   \<and> String \<lparr>bits = 5\<rparr> = ''{HTTP1,UnencryptedHTTP2}''
   \<and> String \<lparr>bits = 6\<rparr> = ''{HTTP2,UnencryptedHTTP2}''
   \<and> String \<lparr>bits = 7\<rparr> = ''{HTTP1,HTTP2,UnencryptedHTTP2}''"
proof -
  have "listed (String p) = map snd (filter fst [(HTTP1 p, ''HTTP1''), (HTTP2 p, ''HTTP2''),
          (UnencryptedHTTP2 p, ''UnencryptedHTTP2'')]) \<and> reenable (String p) = p"
    if w: "bits p \<in> {0, 1, 2, 3, 4, 5, 6, 7}"
  proof -
    have p: "p = \<lparr>bits = bits p\<rparr>" by simp
    show ?thesis using listed_at [OF w] reenable_at [OF w] p by simp
  qed
  moreover have "String \<lparr>bits = 0\<rparr> = ''{}''" "String \<lparr>bits = 1\<rparr> = ''{HTTP1}''"
    "String \<lparr>bits = 2\<rparr> = ''{HTTP2}''" "String \<lparr>bits = 3\<rparr> = ''{HTTP1,HTTP2}''"
    "String \<lparr>bits = 4\<rparr> = ''{UnencryptedHTTP2}''"
    "String \<lparr>bits = 5\<rparr> = ''{HTTP1,UnencryptedHTTP2}''"
    "String \<lparr>bits = 6\<rparr> = ''{HTTP2,UnencryptedHTTP2}''"
    "String \<lparr>bits = 7\<rparr> = ''{HTTP1,HTTP2,UnencryptedHTTP2}''"
    by (simp_all add: String_def HTTP1_def HTTP2_def UnencryptedHTTP2_def proto_values)
  ultimately show ?thesis using String_members by blast
qed

text \<open>
  At the set with HTTP2 alone, and at the set with HTTP1 and UnencryptedHTTP2, which
  is also what the two setters give on the zero value.
\<close>

theorem Protocols_String_roundtrip_witness:
  "bits \<lparr>bits = 2\<rparr> \<in> {0, 1, 2, 3, 4, 5, 6, 7}
   \<and> String \<lparr>bits = 2\<rparr> = ''{HTTP2}''
   \<and> listed ''{HTTP2}'' = [''HTTP2'']
   \<and> reenable ''{HTTP2}'' = \<lparr>bits = 2\<rparr>
   \<and> SetUnencryptedHTTP2 (SetHTTP1 zeroProtocols True) True = \<lparr>bits = 5\<rparr>
   \<and> String \<lparr>bits = 5\<rparr> = ''{HTTP1,UnencryptedHTTP2}''
   \<and> listed ''{HTTP1,UnencryptedHTTP2}'' = [''HTTP1'', ''UnencryptedHTTP2'']
   \<and> reenable ''{HTTP1,UnencryptedHTTP2}'' = \<lparr>bits = 5\<rparr>"
proof -
  have w2: "bits \<lparr>bits = 2\<rparr> \<in> {0, 1, 2, 3, 4, 5, 6, 7}" by simp
  have w5: "bits \<lparr>bits = 5\<rparr> \<in> {0, 1, 2, 3, 4, 5, 6, 7}" by simp
  have s2: "String \<lparr>bits = 2\<rparr> = ''{HTTP2}''"
    by (simp add: String_def HTTP1_def HTTP2_def UnencryptedHTTP2_def proto_values)
  have s5: "String \<lparr>bits = 5\<rparr> = ''{HTTP1,UnencryptedHTTP2}''"
    by (simp add: String_def HTTP1_def HTTP2_def UnencryptedHTTP2_def proto_values)
  have b5: "SetUnencryptedHTTP2 (SetHTTP1 zeroProtocols True) True = \<lparr>bits = 5\<rparr>"
    by (simp add: SetHTTP1_def SetUnencryptedHTTP2_def setBit_def proto_values zeroProtocols_def)
  have e2: "map snd (filter fst [(HTTP1 \<lparr>bits = 2\<rparr>, ''HTTP1''), (HTTP2 \<lparr>bits = 2\<rparr>, ''HTTP2''),
      (UnencryptedHTTP2 \<lparr>bits = 2\<rparr>, ''UnencryptedHTTP2'')]) = [''HTTP2'']"
    by (simp add: HTTP1_def HTTP2_def UnencryptedHTTP2_def proto_values)
  have e5: "map snd (filter fst [(HTTP1 \<lparr>bits = 5\<rparr>, ''HTTP1''), (HTTP2 \<lparr>bits = 5\<rparr>, ''HTTP2''),
      (UnencryptedHTTP2 \<lparr>bits = 5\<rparr>, ''UnencryptedHTTP2'')]) = [''HTTP1'', ''UnencryptedHTTP2'']"
    by (simp add: HTTP1_def HTTP2_def UnencryptedHTTP2_def proto_values)
  have r2: "listed ''{HTTP2}'' = [''HTTP2''] \<and> reenable ''{HTTP2}'' = \<lparr>bits = 2\<rparr>"
    using Protocols_String_roundtrip [of "\<lparr>bits = 2\<rparr>"] w2 unfolding s2 e2 by blast
  have r5: "listed ''{HTTP1,UnencryptedHTTP2}'' = [''HTTP1'', ''UnencryptedHTTP2'']
      \<and> reenable ''{HTTP1,UnencryptedHTTP2}'' = \<lparr>bits = 5\<rparr>"
    using Protocols_String_roundtrip [of "\<lparr>bits = 5\<rparr>"] w5 unfolding s5 e5 by blast
  from w2 s2 r2 b5 s5 r5 show ?thesis by blast
qed

section \<open>Upgrade requests: theorems\<close>

lemma EqualFold_iff: "EqualFold s t \<longleftrightarrow> map lower s = map lower t"
proof -
  have "EqualFold s t \<longleftrightarrow>
      length s = length t \<and> (\<forall>i<length s. lower (s ! i) = lower (t ! i))"
    by (auto simp: EqualFold_def list_all_iff)
  also have "\<dots> \<longleftrightarrow> map lower s = map lower t"
    unfolding list_eq_iff_nth_eq [of "map lower s"] by auto
  finally show ?thesis .
qed

lemma lower_websocket: "map lower ''websocket'' = ''websocket''"
  by code_simp

lemma hasToken_empty: "\<not> hasToken '''' ''upgrade''"
  by (simp add: hasToken_def)

text \<open>
  C8 (as amended). \<open>requestRequiresHTTP1\<close> returns true exactly when the first
  \<open>Connection\<close> value contains the token \<open>upgrade\<close> and the first \<open>Upgrade\<close> value is
  \<open>websocket\<close>, compared without regard to ASCII case. A request without a
  \<open>Connection\<close> entry or without an \<open>Upgrade\<close> entry gets false.
\<close>

theorem requestRequiresHTTP1_iff:
  "(requestRequiresHTTP1 req \<longleftrightarrow>
      hasToken (Get (Header req) ''Connection'') ''upgrade''
      \<and> map lower (Get (Header req) ''Upgrade'') = ''websocket'')
   \<and> (Mapping.lookup (Header req) ''Connection'' = None
        \<or> Mapping.lookup (Header req) ''Upgrade'' = None \<longrightarrow> \<not> requestRequiresHTTP1 req)"
proof -
  have 1: "requestRequiresHTTP1 req \<longleftrightarrow>
      hasToken (Get (Header req) ''Connection'') ''upgrade''
      \<and> map lower (Get (Header req) ''Upgrade'') = ''websocket''"
    unfolding requestRequiresHTTP1_def EqualFold_iff lower_websocket ..
  have 2: "\<not> requestRequiresHTTP1 req" if "Mapping.lookup (Header req) ''Connection'' = None"
    using that by (simp add: requestRequiresHTTP1_def Get_def hasToken_empty)
  have 3: "\<not> requestRequiresHTTP1 req" if "Mapping.lookup (Header req) ''Upgrade'' = None"
    using that by (simp add: requestRequiresHTTP1_def Get_def EqualFold_def)
  from 1 2 3 show ?thesis by blast
qed

theorem requestRequiresHTTP1_iff_witness:
  "requestRequiresHTTP1
     (newRequest\<lparr>Header := Mapping.update ''Upgrade'' [''WebSocket'']
        (Mapping.update ''Connection'' [''keep-alive, Upgrade''] Mapping.empty)\<rparr>)
   \<and> \<not> requestRequiresHTTP1
     (newRequest\<lparr>Header := Mapping.update ''Connection'' [''Upgrade''] Mapping.empty\<rparr>)"
proof -
  let ?h = "Mapping.update ''Upgrade'' [''WebSocket'']
        (Mapping.update ''Connection'' [''keep-alive, Upgrade''] Mapping.empty)"
  have c: "hasToken (Get ?h ''Connection'') ''upgrade''" by code_simp
  have u: "map lower (Get ?h ''Upgrade'') = ''websocket''" by code_simp
  have 1: "requestRequiresHTTP1 (newRequest\<lparr>Header := ?h\<rparr>)"
    using requestRequiresHTTP1_iff [of "newRequest\<lparr>Header := ?h\<rparr>"] c u by simp
  have n: "Mapping.lookup
      (Header (newRequest\<lparr>Header := Mapping.update ''Connection'' [''Upgrade''] Mapping.empty\<rparr>))
      ''Upgrade'' = None"
    by (simp add: lookup_update')
  have 2: "\<not> requestRequiresHTTP1
     (newRequest\<lparr>Header := Mapping.update ''Connection'' [''Upgrade''] Mapping.empty\<rparr>)"
    using requestRequiresHTTP1_iff
      [of "newRequest\<lparr>Header := Mapping.update ''Connection'' [''Upgrade''] Mapping.empty\<rparr>"] n
    by blast
  from 1 2 show ?thesis by blast
qed

text \<open>
  The claim as first stated, for any upgrade token, fails for \<open>Upgrade: h2c\<close> sent with
  \<open>Connection: Upgrade\<close>: both headers are there, \<open>h2c\<close> is a token, and the result is
  false, since the value is compared with \<open>websocket\<close> alone.
\<close>

theorem requestRequiresHTTP1_h2c_counterexample:
  "hasToken (Get (Header (newRequest\<lparr>Header := Mapping.update ''Upgrade'' [''h2c'']
        (Mapping.update ''Connection'' [''Upgrade''] Mapping.empty)\<rparr>)) ''Connection'') ''upgrade''
   \<and> Get (Header (newRequest\<lparr>Header := Mapping.update ''Upgrade'' [''h2c'']
        (Mapping.update ''Connection'' [''Upgrade''] Mapping.empty)\<rparr>)) ''Upgrade'' = ''h2c''
   \<and> isToken ''h2c''
   \<and> \<not> requestRequiresHTTP1 (newRequest\<lparr>Header := Mapping.update ''Upgrade'' [''h2c'']
        (Mapping.update ''Connection'' [''Upgrade''] Mapping.empty)\<rparr>)"
  by code_simp

section \<open>Start line: theorems\<close>









section \<open>Reading a request: theorems\<close>

lemma readRequest_Inr:
  assumes "readRequest env = Inr req"
  shows "\<exists>s r1 r2 r3 r4. ReadLine env = Inr s \<and> requestLine env s = Inr r1
     \<and> requestURL env r1 = Inr r2 \<and> requestHeader env r2 = Inr r3
     \<and> readTransfer env r3 = Inr r4
     \<and> req = (if isH2UpgradeRequest r4 then r4\<lparr>ContentLength := - 1, Close := True\<rparr> else r4)"
  using assms
  by (auto simp: readRequest_def andThen_def deferred_def headerAndTransfer_def
      requestTransfer_def split: sum.splits)

lemma isH2UpgradeRequest_adjust:
  "isH2UpgradeRequest (r\<lparr>ContentLength := n, Close := c\<rparr>) = isH2UpgradeRequest r"
  by (simp add: isH2UpgradeRequest_def)

text \<open>
  C5. For every request returned by \<open>readRequest\<close>: \<open>isH2UpgradeRequest\<close> holds of it
  exactly when its method is \<open>PRI\<close>, it has no header entry, its URL path is \<open>*\<close> and
  its protocol string is \<open>HTTP/2.0\<close>; in that case its \<open>ContentLength\<close> is -1 and its
  \<open>Close\<close> is true; otherwise it is the request as the transfer reader left it, with
  neither field forced.
\<close>

theorem readRequest_h2_preface:
  "readRequest env = Inr req \<Longrightarrow>
     (isH2UpgradeRequest req \<longleftrightarrow>
        Method req = ''PRI'' \<and> Mapping.keys (Header req) = {} \<and> Path (URL req) = ''*''
        \<and> Proto req = ''HTTP/2.0'')
     \<and> (isH2UpgradeRequest req \<longrightarrow>
          ContentLength req = - 1 \<and> sint (ContentLength req) = - 1 \<and> Close req)
     \<and> (\<not> isH2UpgradeRequest req \<longrightarrow> (\<exists>r. readTransfer env r = Inr req))"
proof -
  assume "readRequest env = Inr req"
  then obtain r3 r4 where t: "readTransfer env r3 = Inr r4"
    and req: "req = (if isH2UpgradeRequest r4 then r4\<lparr>ContentLength := - 1, Close := True\<rparr> else r4)"
    using readRequest_Inr by blast
  have same: "isH2UpgradeRequest req = isH2UpgradeRequest r4"
    by (simp add: req isH2UpgradeRequest_adjust)
  have 1: "isH2UpgradeRequest req \<longleftrightarrow>
        Method req = ''PRI'' \<and> Mapping.keys (Header req) = {} \<and> Path (URL req) = ''*''
        \<and> Proto req = ''HTTP/2.0''"
    by (simp add: isH2UpgradeRequest_def Mapping.is_empty_def)
  have 2: "ContentLength req = - 1 \<and> sint (ContentLength req) = - 1 \<and> Close req"
    if "isH2UpgradeRequest req"
    using that same by (simp add: req)
  have 3: "\<exists>r. readTransfer env r = Inr req" if "\<not> isH2UpgradeRequest req"
    using that same t by (auto simp: req)
  from 1 2 3 show ?thesis by blast
qed

theorem readRequest_h2_preface_witness:
  "(case readRequest (exampleEnv ''PRI * HTTP/2.0'') of
      Inl err \<Rightarrow> False
    | Inr req \<Rightarrow> isH2UpgradeRequest req \<and> ContentLength req = - 1 \<and> Close req)
   \<and> (case readRequest (exampleEnv ''GET /index.html HTTP/1.1'') of
      Inl err \<Rightarrow> False
    | Inr req \<Rightarrow> \<not> isH2UpgradeRequest req \<and> ContentLength req = 0 \<and> \<not> Close req)"
proof -
  let ?r = "newRequest\<lparr>Method := ''PRI'', RequestURI := ''*'', Proto := ''HTTP/2.0'',
      ProtoMajor := 2, ProtoMinor := 0, URL := zeroURL\<lparr>Path := ''*''\<rparr>, Body := Some NoBody,
      ContentLength := - 1, Close := True\<rparr>"
  have r: "readRequest (exampleEnv ''PRI * HTTP/2.0'') = Inr ?r"
    by code_simp
  have "Method ?r = ''PRI'' \<and> Mapping.keys (Header ?r) = {} \<and> Path (URL ?r) = ''*''
        \<and> Proto ?r = ''HTTP/2.0''"
    by (simp add: newRequest_def)
  with readRequest_h2_preface [OF r]
  have 1: "isH2UpgradeRequest ?r \<and> ContentLength ?r = - 1 \<and> Close ?r" by blast
  have 2: "case readRequest (exampleEnv ''GET /index.html HTTP/1.1'') of
      Inl err \<Rightarrow> False
    | Inr req \<Rightarrow> \<not> isH2UpgradeRequest req \<and> ContentLength req = 0 \<and> \<not> Close req"
    by code_simp
  from 1 2 show ?thesis by (simp add: r)
qed






text \<open>
  C7 (as amended). An error of the first read, the one of the start line, is returned
  as it is, \<open>io.EOF\<close> included. Once the start line has been read, \<open>readRequest\<close>
  never returns \<open>io.EOF\<close>: an \<open>io.EOF\<close> met by the URL parser, while reading the header
  block, or by the transfer reader comes out as \<open>io.ErrUnexpectedEOF\<close>.
\<close>

theorem readRequest_EOF:
  "(\<forall>err. ReadLine env = Inl err \<longrightarrow> readRequest env = Inl err)
   \<and> (\<forall>s. ReadLine env = Inr s \<longrightarrow> readRequest env \<noteq> Inl EOF)
   \<and> (\<forall>s r1 r2. ReadLine env = Inr s \<and> requestLine env s = Inr r1 \<and> requestURL env r1 = Inr r2
        \<and> ReadMIMEHeader env = Inl EOF \<longrightarrow> readRequest env = Inl ErrUnexpectedEOF)
   \<and> (\<forall>s r1. ReadLine env = Inr s \<and> requestLine env s = Inr r1 \<and> requestURL env r1 = Inl EOF
        \<longrightarrow> readRequest env = Inl ErrUnexpectedEOF)
   \<and> (\<forall>s r1 r2 r3. ReadLine env = Inr s \<and> requestLine env s = Inr r1
        \<and> requestURL env r1 = Inr r2 \<and> requestHeader env r2 = Inr r3
        \<and> readTransfer env r3 = Inl EOF \<longrightarrow> readRequest env = Inl ErrUnexpectedEOF)"
proof -
  have 1: "readRequest env = Inl err" if "ReadLine env = Inl err" for err
    using that by (simp add: readRequest_def)
  have 2: "readRequest env \<noteq> Inl EOF" if "ReadLine env = Inr s" for s
    using that by (auto simp: readRequest_def deferred_def split: sum.splits)
  have 3: "readRequest env = Inl ErrUnexpectedEOF"
    if "ReadLine env = Inr s \<and> requestLine env s = Inr r1 \<and> requestURL env r1 = Inr r2
        \<and> ReadMIMEHeader env = Inl EOF" for s r1 r2
    using that
    by (simp add: readRequest_def deferred_def andThen_def headerAndTransfer_def
        requestHeader_def)
  have 4: "readRequest env = Inl ErrUnexpectedEOF"
    if "ReadLine env = Inr s \<and> requestLine env s = Inr r1 \<and> requestURL env r1 = Inl EOF"
    for s r1
    using that by (simp add: readRequest_def deferred_def andThen_def)
  have 5: "readRequest env = Inl ErrUnexpectedEOF"
    if "ReadLine env = Inr s \<and> requestLine env s = Inr r1
        \<and> requestURL env r1 = Inr r2 \<and> requestHeader env r2 = Inr r3
        \<and> readTransfer env r3 = Inl EOF" for s r1 r2 r3
    using that
    by (simp add: readRequest_def deferred_def andThen_def headerAndTransfer_def
        requestTransfer_def)
  from 1 2 3 4 5 show ?thesis by blast
qed

text \<open>
  A stream that ends in the header block, a stream that ends in the body, and a first
  read that fails.
\<close>

theorem readRequest_EOF_witness:
  "readRequest ((exampleEnv ''GET /index.html HTTP/1.1'')\<lparr>ReadMIMEHeader := Inl EOF\<rparr>)
     = Inl ErrUnexpectedEOF
   \<and> readRequest ((exampleEnv ''GET /index.html HTTP/1.1'')\<lparr>readTransfer := (\<lambda>req. Inl EOF)\<rparr>)
     = Inl ErrUnexpectedEOF
   \<and> readRequest ((exampleEnv ''GET /index.html HTTP/1.1'')\<lparr>ReadLine := Inl (External ''reset'')\<rparr>)
     = Inl (External ''reset'')"
proof -
  let ?e = "(exampleEnv ''GET /index.html HTTP/1.1'')\<lparr>ReadMIMEHeader := Inl EOF\<rparr>"
  let ?t = "(exampleEnv ''GET /index.html HTTP/1.1'')\<lparr>readTransfer := (\<lambda>req. Inl EOF)\<rparr>"
  let ?r1 = "newRequest\<lparr>Method := ''GET'', RequestURI := ''/index.html'', Proto := ''HTTP/1.1'',
      ProtoMajor := 1, ProtoMinor := 1\<rparr>"
  let ?r2 = "?r1\<lparr>URL := zeroURL\<lparr>Path := ''/index.html''\<rparr>\<rparr>"
  have a: "ReadLine ?e = Inr ''GET /index.html HTTP/1.1''" by (simp add: exampleEnv_def)
  have b: "requestLine ?e ''GET /index.html HTTP/1.1'' = Inr ?r1" by code_simp
  have c: "requestURL ?e ?r1 = Inr ?r2" by code_simp
  have d: "ReadMIMEHeader ?e = Inl EOF" by (simp add: exampleEnv_def)
  have 1: "readRequest ?e = Inl ErrUnexpectedEOF"
    using readRequest_EOF [of ?e] a b c d by blast
  have a': "ReadLine ?t = Inr ''GET /index.html HTTP/1.1''" by (simp add: exampleEnv_def)
  have b': "requestLine ?t ''GET /index.html HTTP/1.1'' = Inr ?r1" by code_simp
  have c': "requestURL ?t ?r1 = Inr ?r2" by code_simp
  have h': "requestHeader ?t ?r2 = Inr ?r2" by code_simp
  have d': "readTransfer ?t ?r2 = Inl EOF" by (simp add: exampleEnv_def)
  have 2: "readRequest ?t = Inl ErrUnexpectedEOF"
    using readRequest_EOF [of ?t] a' b' c' h' d' by blast
  have 3: "readRequest ((exampleEnv ''GET /index.html HTTP/1.1'')\<lparr>ReadLine := Inl (External ''reset'')\<rparr>)
     = Inl (External ''reset'')"
    using readRequest_EOF
      [of "(exampleEnv ''GET /index.html HTTP/1.1'')\<lparr>ReadLine := Inl (External ''reset'')\<rparr>"]
    by simp
  from 1 2 3 show ?thesis by blast
qed

text \<open>
  The claim as first stated, which includes the start line, fails when the read of the
  start line itself returns \<open>io.EOF\<close>: that error is returned unchanged.
\<close>

theorem readRequest_EOF_start_line_counterexample:
  "ReadLine ((exampleEnv '''')\<lparr>ReadLine := Inl EOF\<rparr>) = Inl EOF
   \<and> readRequest ((exampleEnv '''')\<lparr>ReadLine := Inl EOF\<rparr>) = Inl EOF
   \<and> readRequest ((exampleEnv '''')\<lparr>ReadLine := Inl EOF\<rparr>) \<noteq> Inl ErrUnexpectedEOF"
  by (simp add: readRequest_def)

end
